theory Spec2Isabelle
  imports Main "HOL-Library.Sublist"
begin

section \<open>The HTTP client wrapper (src/services/api.js)\<close>

text \<open>
  \<^verbatim>\<open>axios.create({ baseURL: 'http://localhost:5000',
                  headers: { 'Content-Type': 'application/json' } })\<close>
  The wrapper is a configuration object; a request made through it carries the
  configuration's base URL and headers next to the path it was called with.
\<close>

datatype http_method = GET | POST

record client_config =
  baseURL :: string
  headers :: "(string \<times> string) list"

definition apiClient :: client_config where
  "apiClient =
     \<lparr>baseURL = ''http://localhost:5000'',
      headers = [(''Content-Type'', ''application/json'')]\<rparr>"

record 'b request =
  req_method :: http_method
  req_baseURL :: string
  req_headers :: "(string \<times> string) list"
  req_url :: string
  req_data :: "'b option"

definition apiClient_get :: "string \<Rightarrow> 'b request" where
  "apiClient_get path =
     \<lparr>req_method = GET, req_baseURL = baseURL apiClient,
      req_headers = headers apiClient, req_url = path, req_data = None\<rparr>"

definition apiClient_post :: "string \<Rightarrow> 'b \<Rightarrow> 'b request" where
  "apiClient_post path body =
     \<lparr>req_method = POST, req_baseURL = baseURL apiClient,
      req_headers = headers apiClient, req_url = path, req_data = Some body\<rparr>"

section \<open>The alert configuration form (AlertConfig.js)\<close>

subsection \<open>Values and component state\<close>

text \<open>
  A field of the draft holds a JavaScript value: a string (the initial \<^verbatim>\<open>''\<close> and
  every \<^verbatim>\<open>e.target.value\<close>) or a number (what \<^verbatim>\<open>parseFloat\<close> returns, NaN
  included). The number type is a parameter \<open>'n\<close>, and \<^verbatim>\<open>parseFloat\<close> itself, a
  builtin of the language, is a parameter of the handlers that call it.
\<close>

datatype 'n jsval = JString string | JNumber 'n

record 'n alert_draft =
  alert_title :: "'n jsval"
  alert_message :: "'n jsval"
  field_name :: "'n jsval"
  lower_bound :: "'n jsval"
  higher_bound :: "'n jsval"

text \<open>The object literal of lines 9-15 and 71-77.\<close>

definition emptyDraft :: "'n alert_draft" where
  "emptyDraft =
     \<lparr>alert_title = JString [], alert_message = JString [], field_name = JString [],
      lower_bound = JString [], higher_bound = JString []\<rparr>"

text \<open>
  The six \<^verbatim>\<open>useState\<close> cells of the component, with the \<^verbatim>\<open>selectedDatabase\<close>
  prop the parent passes in.
\<close>

record 'n state =
  selectedDatabase :: string
  tables :: "string list"
  selectedTable :: string
  columns :: "string list"
  formData :: "'n alert_draft"
  error :: string
  success :: string

text \<open>
  What the component does to the outside: a request through the client wrapper,
  \<^verbatim>\<open>e.preventDefault()\<close>, and a call of the \<^verbatim>\<open>refreshAlerts\<close> prop (a callback
  of the parent, taken to return normally). Writing to the console is left out.
\<close>

datatype 'n effect =
    PreventDefault
  | Request "'n alert_draft request"
  | RefreshAlerts

text \<open>Truthiness of a JavaScript string: every string but the empty one.\<close>

definition truthy :: "string \<Rightarrow> bool" where
  "truthy v = (v \<noteq> [])"

text \<open>The three template literals (lines 24, 46 and 67): plain concatenation.\<close>

definition tables_url :: "string \<Rightarrow> string" where
  "tables_url db = ''/fault_management/tables_from_db?database='' @ db"

definition columns_url :: "string \<Rightarrow> string \<Rightarrow> string" where
  "columns_url db t =
     ''/fault_management/columns_from_db?database='' @ db @ ''&table='' @ t"

definition add_alert_url :: "string \<Rightarrow> string" where
  "add_alert_url db = ''/fault_management/add_alert?database='' @ db"

definition initial :: "string \<Rightarrow> 'n state" where
  "initial db =
     \<lparr>selectedDatabase = db, tables = [], selectedTable = [], columns = [],
      formData = emptyDraft, error = [], success = []\<rparr>"

subsection \<open>Promises and exceptions\<close>

text \<open>
  A request either resolves with the part of the response body the code reads
  (\<^verbatim>\<open>response.data.tables\<close>, \<^verbatim>\<open>response.data.columns\<close>, nothing for the POST), of
  the shape the backend documents, or rejects. \<open>await\<close> on a rejected promise throws.
\<close>

datatype 'r outcome = Resolved 'r | Rejected

datatype exn = RequestFailed

definition await :: "'r outcome \<Rightarrow> exn + 'r" where
  "await p = (case p of Resolved r \<Rightarrow> Inr r | Rejected \<Rightarrow> Inl RequestFailed)"

definition try_catch :: "exn + 'a \<Rightarrow> (exn \<Rightarrow> exn + 'a) \<Rightarrow> exn + 'a" where
  "try_catch body handler = (case body of Inl e \<Rightarrow> handler e | Inr v \<Rightarrow> Inr v)"

subsection \<open>The two effects\<close>

text \<open>
  Lines 20-37. The part of the effect that runs at once: the guard and the call of
  \<^verbatim>\<open>fetchTables\<close> up to its \<^verbatim>\<open>await\<close>.
\<close>

definition fetchTables_effect :: "'n state \<Rightarrow> 'n effect list" where
  "fetchTables_effect s =
     (if truthy (selectedDatabase s)
      then [Request (apiClient_get (tables_url (selectedDatabase s)))]
      else [])"

text \<open>
  The rest of \<^verbatim>\<open>fetchTables\<close>, run when the request settles: the two setters
  after the \<^verbatim>\<open>await\<close> inside \<^verbatim>\<open>try\<close>, and the \<^verbatim>\<open>catch\<close> block.
\<close>

definition fetchTables_resume :: "string list outcome \<Rightarrow> 'n state \<Rightarrow> exn + 'n state" where
  "fetchTables_resume p s =
     try_catch
       (case await p of
          Inl e \<Rightarrow> Inl e
        | Inr tbls \<Rightarrow> Inr (s\<lparr>tables := tbls, selectedTable := []\<rparr>))
       (\<lambda>e. Inr (s\<lparr>error := ''Failed to fetch tables''\<rparr>))"

text \<open>Lines 40-59, split the same way; the source tests the selection twice.\<close>

definition fetchColumns_effect :: "'n state \<Rightarrow> 'n effect list" where
  "fetchColumns_effect s =
     (if truthy (selectedTable s)
      then (if \<not> truthy (selectedTable s) then []
            else [Request (apiClient_get
                    (columns_url (selectedDatabase s) (selectedTable s)))])
      else [])"

definition fetchColumns_resume :: "string list outcome \<Rightarrow> 'n state \<Rightarrow> exn + 'n state" where
  "fetchColumns_resume p s =
     try_catch
       (case await p of
          Inl e \<Rightarrow> Inl e
        | Inr cols \<Rightarrow>
            Inr (s\<lparr>columns := cols, formData := (formData s)\<lparr>field_name := JString []\<rparr>\<rparr>))
       (\<lambda>e. Inr (s\<lparr>error := ''Failed to fetch columns''\<rparr>))"

text \<open>
  React runs an effect after the first render, and after a later render when one
  of its dependencies differs from the previous render's: \<^verbatim>\<open>[selectedDatabase]\<close>
  for the first effect, \<^verbatim>\<open>[selectedTable, selectedDatabase]\<close> for the second.
\<close>

definition run_effects :: "'n state \<Rightarrow> 'n state \<Rightarrow> 'n effect list" where
  "run_effects old new =
     (if selectedDatabase new \<noteq> selectedDatabase old then fetchTables_effect new else [])
     @ (if selectedTable new \<noteq> selectedTable old \<or> selectedDatabase new \<noteq> selectedDatabase old
        then fetchColumns_effect new else [])"

definition mount :: "string \<Rightarrow> 'n state \<times> 'n effect list" where
  "mount db =
     (let s = initial db in (s, fetchTables_effect s @ fetchColumns_effect s))"

subsection \<open>Submission (lines 61-82)\<close>

text \<open>\<^verbatim>\<open>handleSubmit\<close> up to its \<^verbatim>\<open>await\<close>.\<close>

definition handleSubmit :: "'n state \<Rightarrow> 'n state \<times> 'n effect list" where
  "handleSubmit s =
     (s\<lparr>error := [], success := []\<rparr>,
      [PreventDefault,
       Request (apiClient_post (add_alert_url (selectedDatabase s)) (formData s))])"

text \<open>The rest of \<^verbatim>\<open>handleSubmit\<close>, run when the POST settles.\<close>

definition handleSubmit_resume ::
  "unit outcome \<Rightarrow> 'n state \<Rightarrow> exn + ('n state \<times> 'n effect list)" where
  "handleSubmit_resume p s =
     try_catch
       (case await p of
          Inl e \<Rightarrow> Inl e
        | Inr _ \<Rightarrow>
            Inr (s\<lparr>success := ''Alert added successfully'', formData := emptyDraft\<rparr>,
                 [RefreshAlerts]))
       (\<lambda>e. Inr (s\<lparr>error := ''Failed to add alert''\<rparr>, []))"

subsection \<open>The change handlers of the form controls (lines 97-165)\<close>

definition onChange_selectedTable :: "string \<Rightarrow> 'n state \<Rightarrow> 'n state" where
  "onChange_selectedTable v s = s\<lparr>selectedTable := v\<rparr>"

definition onChange_field_name :: "string \<Rightarrow> 'n state \<Rightarrow> 'n state" where
  "onChange_field_name v s = s\<lparr>formData := (formData s)\<lparr>field_name := JString v\<rparr>\<rparr>"

definition onChange_alert_title :: "string \<Rightarrow> 'n state \<Rightarrow> 'n state" where
  "onChange_alert_title v s = s\<lparr>formData := (formData s)\<lparr>alert_title := JString v\<rparr>\<rparr>"

definition onChange_alert_message :: "string \<Rightarrow> 'n state \<Rightarrow> 'n state" where
  "onChange_alert_message v s = s\<lparr>formData := (formData s)\<lparr>alert_message := JString v\<rparr>\<rparr>"

definition onChange_lower_bound :: "(string \<Rightarrow> 'n) \<Rightarrow> string \<Rightarrow> 'n state \<Rightarrow> 'n state" where
  "onChange_lower_bound parseFloat v s =
     s\<lparr>formData := (formData s)\<lparr>lower_bound := JNumber (parseFloat v)\<rparr>\<rparr>"

definition onChange_higher_bound :: "(string \<Rightarrow> 'n) \<Rightarrow> string \<Rightarrow> 'n state \<Rightarrow> 'n state" where
  "onChange_higher_bound parseFloat v s =
     s\<lparr>formData := (formData s)\<lparr>higher_bound := JNumber (parseFloat v)\<rparr>\<rparr>"

subsection \<open>The component as a transition system\<close>

text \<open>
  One event of the UI loop: the parent passes a new \<^verbatim>\<open>selectedDatabase\<close>, the user
  changes a control or submits, or a pending request settles. A handler updates
  the state, the component renders again, and the effects whose dependencies
  changed run. A continuation that threw would leave the state as it is.
\<close>

datatype event =
    DatabaseProp string
  | ChangeTable string
  | ChangeField string
  | ChangeTitle string
  | ChangeMessage string
  | ChangeLower string
  | ChangeHigher string
  | SubmitForm
  | TablesSettled "string list outcome"
  | ColumnsSettled "string list outcome"
  | AddAlertSettled "unit outcome"

definition rerender :: "'n state \<Rightarrow> 'n state \<Rightarrow> 'n state \<times> 'n effect list" where
  "rerender old new = (new, run_effects old new)"

definition settle :: "'n state \<Rightarrow> exn + 'n state \<Rightarrow> 'n state \<times> 'n effect list" where
  "settle s r = (case r of Inl e \<Rightarrow> (s, []) | Inr s' \<Rightarrow> rerender s s')"

definition step :: "(string \<Rightarrow> 'n) \<Rightarrow> event \<Rightarrow> 'n state \<Rightarrow> 'n state \<times> 'n effect list" where
  "step parseFloat ev s =
     (case ev of
        DatabaseProp db \<Rightarrow> rerender s (s\<lparr>selectedDatabase := db\<rparr>)
      | ChangeTable v \<Rightarrow> rerender s (onChange_selectedTable v s)
      | ChangeField v \<Rightarrow> rerender s (onChange_field_name v s)
      | ChangeTitle v \<Rightarrow> rerender s (onChange_alert_title v s)
      | ChangeMessage v \<Rightarrow> rerender s (onChange_alert_message v s)
      | ChangeLower v \<Rightarrow> rerender s (onChange_lower_bound parseFloat v s)
      | ChangeHigher v \<Rightarrow> rerender s (onChange_higher_bound parseFloat v s)
      | SubmitForm \<Rightarrow>
          (let (s', out) = handleSubmit s in (s', out @ run_effects s s'))
      | TablesSettled p \<Rightarrow> settle s (fetchTables_resume p s)
      | ColumnsSettled p \<Rightarrow> settle s (fetchColumns_resume p s)
      | AddAlertSettled p \<Rightarrow>
          (case handleSubmit_resume p s of
             Inl e \<Rightarrow> (s, [])
           | Inr (s', out) \<Rightarrow> (s', out @ run_effects s s')))"

text \<open>The state after a sequence of events, and everything emitted on the way.\<close>

fun run :: "(string \<Rightarrow> 'n) \<Rightarrow> 'n state \<Rightarrow> event list \<Rightarrow> 'n state" where
  "run parseFloat s [] = s"
| "run parseFloat s (ev # evs) = run parseFloat (fst (step parseFloat ev s)) evs"

text \<open>The requests among a list of effects, in order.\<close>

fun requests :: "'n effect list \<Rightarrow> 'n alert_draft request list" where
  "requests [] = []"
| "requests (Request r # es) = r # requests es"
| "requests (e # es) = requests es"


subsection \<open>Predicates on the draft\<close>

definition is_string :: "'n jsval \<Rightarrow> bool" where
  "is_string v = (case v of JString _ \<Rightarrow> True | JNumber _ \<Rightarrow> False)"

definition is_number :: "'n jsval \<Rightarrow> bool" where
  "is_number v = (case v of JString _ \<Rightarrow> False | JNumber _ \<Rightarrow> True)"

text \<open>
  What holds of the draft in every state: the three text fields are strings, and
  a bound is the empty string of the object literal or a number.
\<close>

definition draft_inv :: "'n alert_draft \<Rightarrow> bool" where
  "draft_inv d =
     (is_string (alert_title d) \<and> is_string (alert_message d) \<and> is_string (field_name d)
      \<and> (lower_bound d = JString [] \<or> is_number (lower_bound d))
      \<and> (higher_bound d = JString [] \<or> is_number (higher_bound d)))"

subsection \<open>A concrete session\<close>

text \<open>
  For the examples the number type is \<open>nat option\<close>, \<open>None\<close> standing for NaN, and
  \<^verbatim>\<open>parseFloat\<close> is instantiated by a function that agrees with it on non-empty
  strings of decimal digits, the only strings the examples type into a bound.
\<close>

definition parseFloat_digits :: "string \<Rightarrow> nat option" where
  "parseFloat_digits v =
     (if v \<noteq> [] \<and> list_all (\<lambda>c. c \<in> set ''0123456789'') v
      then Some (foldl (\<lambda>n c. 10 * n + (of_char c - 48)) 0 v) else None)"

text \<open>
  The form after one alert on database \<open>sensors\<close> was added and a second one has
  been filled in: table \<open>readings\<close> and its column \<open>temp\<close> are selected, and the
  success message of the first alert is still shown.
\<close>

definition sensors_state :: "nat option state" where
  "sensors_state =
     \<lparr>selectedDatabase = ''sensors'', tables = [''readings'', ''events''],
      selectedTable = ''readings'', columns = [''temp''],
      formData = \<lparr>alert_title = JString ''Hot'', alert_message = JString ''Too hot'',
                  field_name = JString ''temp'', lower_bound = JNumber (Some 0),
                  higher_bound = JNumber (Some 90)\<rparr>,
      error = [], success = ''Alert added successfully''\<rparr>"

section \<open>What each event does\<close>

lemmas handler_defs = step_def rerender_def settle_def run_effects_def
  fetchTables_effect_def fetchColumns_effect_def fetchTables_resume_def fetchColumns_resume_def
  handleSubmit_def handleSubmit_resume_def try_catch_def await_def truthy_def
  onChange_selectedTable_def onChange_field_name_def onChange_alert_title_def
  onChange_alert_message_def onChange_lower_bound_def onChange_higher_bound_def

lemmas url_defs = apiClient_get_def apiClient_post_def apiClient_def
  tables_url_def columns_url_def add_alert_url_def

lemma mount_eq:
  "mount db =
     (initial db, if db \<noteq> [] then [Request (apiClient_get (tables_url db))] else [])"
  by (simp add: mount_def Let_def initial_def fetchTables_effect_def fetchColumns_effect_def
      truthy_def)

lemma step_DatabaseProp:
  "step pf (DatabaseProp db) s =
     (s\<lparr>selectedDatabase := db\<rparr>,
      (if db \<noteq> selectedDatabase s \<and> db \<noteq> []
       then [Request (apiClient_get (tables_url db))] else [])
      @ (if db \<noteq> selectedDatabase s \<and> selectedTable s \<noteq> []
         then [Request (apiClient_get (columns_url db (selectedTable s)))] else []))"
  by (simp add: handler_defs)

lemma step_ChangeTable:
  "step pf (ChangeTable v) s =
     (s\<lparr>selectedTable := v\<rparr>,
      if v \<noteq> selectedTable s \<and> v \<noteq> []
      then [Request (apiClient_get (columns_url (selectedDatabase s) v))] else [])"
  by (simp add: handler_defs)

lemma step_TablesSettled:
  "step pf (TablesSettled (Resolved tbls)) s = (s\<lparr>tables := tbls, selectedTable := []\<rparr>, [])"
  "step pf (TablesSettled Rejected) s = (s\<lparr>error := ''Failed to fetch tables''\<rparr>, [])"
  by (simp_all add: handler_defs)

lemma step_ColumnsSettled:
  "step pf (ColumnsSettled (Resolved cols)) s =
     (s\<lparr>columns := cols, formData := (formData s)\<lparr>field_name := JString []\<rparr>\<rparr>, [])"
  "step pf (ColumnsSettled Rejected) s = (s\<lparr>error := ''Failed to fetch columns''\<rparr>, [])"
  by (simp_all add: handler_defs)

lemma step_SubmitForm:
  "step pf SubmitForm s =
     (s\<lparr>error := [], success := []\<rparr>,
      [PreventDefault,
       Request (apiClient_post (add_alert_url (selectedDatabase s)) (formData s))])"
  by (simp add: handler_defs)

lemma step_AddAlertSettled:
  "step pf (AddAlertSettled (Resolved u)) s =
     (s\<lparr>success := ''Alert added successfully'', formData := emptyDraft\<rparr>, [RefreshAlerts])"
  "step pf (AddAlertSettled Rejected) s = (s\<lparr>error := ''Failed to add alert''\<rparr>, [])"
  by (simp_all add: handler_defs)

lemma step_edits:
  "step pf (ChangeField v) s = (s\<lparr>formData := (formData s)\<lparr>field_name := JString v\<rparr>\<rparr>, [])"
  "step pf (ChangeTitle v) s = (s\<lparr>formData := (formData s)\<lparr>alert_title := JString v\<rparr>\<rparr>, [])"
  "step pf (ChangeMessage v) s =
     (s\<lparr>formData := (formData s)\<lparr>alert_message := JString v\<rparr>\<rparr>, [])"
  "step pf (ChangeLower v) s =
     (s\<lparr>formData := (formData s)\<lparr>lower_bound := JNumber (pf v)\<rparr>\<rparr>, [])"
  "step pf (ChangeHigher v) s =
     (s\<lparr>formData := (formData s)\<lparr>higher_bound := JNumber (pf v)\<rparr>\<rparr>, [])"
  by (simp_all add: handler_defs)

lemmas step_simps = step_DatabaseProp step_ChangeTable step_TablesSettled step_ColumnsSettled
  step_SubmitForm step_AddAlertSettled step_edits

text \<open>
  The concrete state is one the component reaches: mounted on \<open>sensors\<close>, a first
  alert filled in and added, a second one filled in.
\<close>

lemma sensors_state_reachable:
  "run parseFloat_digits (fst (mount ''sensors''))
     [TablesSettled (Resolved [''readings'', ''events'']), ChangeTable ''readings'',
      ColumnsSettled (Resolved [''temp'']), ChangeField ''temp'', ChangeTitle ''Cold'',
      ChangeMessage ''Too cold'', ChangeLower ''0'', ChangeHigher ''5'', SubmitForm,
      AddAlertSettled (Resolved ()), ChangeField ''temp'', ChangeTitle ''Hot'',
      ChangeMessage ''Too hot'', ChangeLower ''0'', ChangeHigher ''90'']
   = sensors_state"
  by (simp add: step_simps mount_eq initial_def emptyDraft_def sensors_state_def
      parseFloat_digits_def)


section \<open>Submission\<close>

text \<open>
  Claim C1. A submit event prevents the default form action, clears the error and
  the success message, and sends exactly one request: a POST of the current draft
  to \<^verbatim>\<open>/fault_management/add_alert?database=\<close> followed by the selected database,
  through the client wrapper. When the POST resolves, the success message is set,
  \<^verbatim>\<open>refreshAlerts\<close> is called exactly once, no request is sent, and every field of
  the draft is the empty string. When it rejects, the error message is
  \<^verbatim>\<open>Failed to add alert\<close> and nothing else happens.
\<close>

theorem handleSubmit_posts_draft_then_resets:
  "fst (step pf SubmitForm s) = s\<lparr>error := [], success := []\<rparr>
   \<and> snd (step pf SubmitForm s) =
      [PreventDefault,
       Request \<lparr>req_method = POST, req_baseURL = ''http://localhost:5000'',
                req_headers = [(''Content-Type'', ''application/json'')],
                req_url = ''/fault_management/add_alert?database='' @ selectedDatabase s,
                req_data = Some (formData s)\<rparr>]
   \<and> length (requests (snd (step pf SubmitForm s))) = 1
   \<and> fst (step pf (AddAlertSettled (Resolved ())) s') =
       s'\<lparr>success := ''Alert added successfully'',
           formData := \<lparr>alert_title = JString [], alert_message = JString [],
                         field_name = JString [], lower_bound = JString [],
                         higher_bound = JString []\<rparr>\<rparr>
   \<and> count_list (snd (step pf (AddAlertSettled (Resolved ())) s')) RefreshAlerts = 1
   \<and> requests (snd (step pf (AddAlertSettled (Resolved ())) s')) = []
   \<and> step pf (AddAlertSettled Rejected) s' = (s'\<lparr>error := ''Failed to add alert''\<rparr>, [])"
  by (simp add: step_simps url_defs emptyDraft_def)

text \<open>
  Claim C9, as the code has it. A submit whose POST rejects leaves the draft as it
  was before the submit and never calls \<^verbatim>\<open>refreshAlerts\<close>; of the state, the
  error message becomes \<^verbatim>\<open>Failed to add alert\<close> and the success message, cleared
  by the submit, is empty; everything else is as before. The rejection alone
  changes the error message only.
\<close>

theorem failed_submit_keeps_draft:
  "(let s1 = fst (step pf SubmitForm s); r = step pf (AddAlertSettled Rejected) s1
    in fst r = s\<lparr>error := ''Failed to add alert'', success := []\<rparr>
       \<and> formData (fst r) = formData s
       \<and> RefreshAlerts \<notin> set (snd (step pf SubmitForm s) @ snd r))
   \<and> fst (step pf (AddAlertSettled Rejected) s') = s'\<lparr>error := ''Failed to add alert''\<rparr>
   \<and> snd (step pf (AddAlertSettled Rejected) s') = []"
  by (simp add: step_simps)

text \<open>
  The claim's "only the error message changes" fails where a success message was
  on display: the failed submit removes it.
\<close>

theorem failed_submit_clears_success:
  "success sensors_state = ''Alert added successfully''
   \<and> success (fst (step parseFloat_digits (AddAlertSettled Rejected)
        (fst (step parseFloat_digits SubmitForm sensors_state)))) = []"
  by (simp add: step_simps sensors_state_def)

section \<open>The table fetch\<close>

text \<open>
  Claim C2, as the code has it. A change of the selected database to a non-empty
  value requests its tables. Take the state in which that fetch settles, whatever
  events came in between. When the fetch succeeds, the table list is replaced and
  the table selection is cleared, and nothing else changes: the column list and
  the draft's \<^verbatim>\<open>field_name\<close> are not cleared, they are what they were just
  before. When the fetch fails, the table selection is not cleared either: only
  the error message is set.
\<close>

theorem database_change_resets_selection_only:
  assumes "db \<noteq> []" and "db \<noteq> selectedDatabase s"
  shows "Request (apiClient_get (tables_url db)) \<in> set (snd (step pf (DatabaseProp db) s))
    \<and> (let s1 = run pf (fst (step pf (DatabaseProp db) s)) evs;
           ok = fst (step pf (TablesSettled (Resolved tbls)) s1);
           ko = fst (step pf (TablesSettled Rejected) s1)
       in ok = s1\<lparr>tables := tbls, selectedTable := []\<rparr>
          \<and> selectedTable ok = [] \<and> columns ok = columns s1
          \<and> field_name (formData ok) = field_name (formData s1)
          \<and> ko = s1\<lparr>error := ''Failed to fetch tables''\<rparr>
          \<and> selectedTable ko = selectedTable s1 \<and> columns ko = columns s1
          \<and> field_name (formData ko) = field_name (formData s1))"
  using assms by (simp add: step_simps Let_def)

text \<open>
  Two orders of the same session. With nothing in between, the table fetch leaves
  the columns and the field of the previous database. When the column fetch that
  the database change itself sends (for the table still selected) resolves first,
  the table fetch leaves what that one stored.
\<close>

theorem database_change_resets_selection_only_witness:
  "''plant'' \<noteq> [] \<and> ''plant'' \<noteq> selectedDatabase sensors_state
   \<and> Request (apiClient_get (tables_url ''plant''))
       \<in> set (snd (step parseFloat_digits (DatabaseProp ''plant'') sensors_state))
   \<and> (let ok = run parseFloat_digits sensors_state
                 [DatabaseProp ''plant'', TablesSettled (Resolved [''lines''])]
       in selectedTable ok = [] \<and> columns ok = [''temp'']
          \<and> field_name (formData ok) = JString ''temp'')
   \<and> (let ok = run parseFloat_digits sensors_state
                 [DatabaseProp ''plant'', ColumnsSettled (Resolved [''speed'']),
                  TablesSettled (Resolved [''lines''])]
       in selectedTable ok = [] \<and> columns ok = [''speed'']
          \<and> field_name (formData ok) = JString [])
   \<and> (let ko = run parseFloat_digits sensors_state
                 [DatabaseProp ''plant'', TablesSettled Rejected]
       in selectedTable ko = ''readings'' \<and> error ko = ''Failed to fetch tables'')"
proof -
  have now: "run parseFloat_digits
      (fst (step parseFloat_digits (DatabaseProp ''plant'') sensors_state)) []
    = sensors_state\<lparr>selectedDatabase := ''plant''\<rparr>"
    by (simp add: step_simps)
  have later: "run parseFloat_digits
      (fst (step parseFloat_digits (DatabaseProp ''plant'') sensors_state))
      [ColumnsSettled (Resolved [''speed''])]
    = sensors_state\<lparr>selectedDatabase := ''plant'', columns := [''speed''],
        formData := (formData sensors_state)\<lparr>field_name := JString []\<rparr>\<rparr>"
    by (simp add: step_simps)
  from database_change_resets_selection_only
         [of "''plant''" sensors_state parseFloat_digits "[]" "[''lines'']"]
       database_change_resets_selection_only
         [of "''plant''" sensors_state parseFloat_digits
             "[ColumnsSettled (Resolved [''speed''])]" "[''lines'']"]
       now later
  show ?thesis
    by (simp add: sensors_state_def Let_def)
qed

text \<open>
  The claim fails already for a fetch that succeeds: the columns of the previous
  database and the field chosen among them are still there, not cleared. For a
  fetch that fails, the table selection is still there as well.
\<close>

theorem database_change_keeps_columns_and_field:
  "(let s1 = fst (step parseFloat_digits (DatabaseProp ''plant'') sensors_state);
        ok = fst (step parseFloat_digits (TablesSettled (Resolved [''lines''])) s1);
        ko = fst (step parseFloat_digits (TablesSettled Rejected) s1)
    in columns ok = [''temp''] \<and> field_name (formData ok) = JString ''temp''
       \<and> selectedTable ko = ''readings'' \<and> columns ko = [''temp'']
       \<and> field_name (formData ko) = JString ''temp'')"
  by (simp add: step_simps sensors_state_def)

text \<open>
  Claim C3, as the code has it. A database change to a non-empty value requests
  the tables of that database. When the fetch fails, the error message is
  \<^verbatim>\<open>Failed to fetch tables\<close> and the table selection is what it was; when it
  succeeds, the table selection is cleared and the error message is what it was.
\<close>

theorem tables_fetch_failure_keeps_selection:
  assumes "db \<noteq> []" and "db \<noteq> selectedDatabase s"
  shows "apiClient_get (tables_url db) \<in> set (requests (snd (step pf (DatabaseProp db) s)))
    \<and> (let s1 = fst (step pf (DatabaseProp db) s);
           ko = fst (step pf (TablesSettled Rejected) s1);
           ok = fst (step pf (TablesSettled (Resolved tbls)) s1)
       in error ko = ''Failed to fetch tables'' \<and> selectedTable ko = selectedTable s
          \<and> selectedTable ok = [] \<and> error ok = error s)"
  using assms by (simp add: step_simps)

theorem tables_fetch_failure_keeps_selection_witness:
  "''plant'' \<noteq> [] \<and> ''plant'' \<noteq> selectedDatabase sensors_state
   \<and> error (fst (step parseFloat_digits (TablesSettled Rejected)
        (fst (step parseFloat_digits (DatabaseProp ''plant'') sensors_state))))
      = ''Failed to fetch tables''
   \<and> selectedTable (fst (step parseFloat_digits (TablesSettled (Resolved [''lines'']))
        (fst (step parseFloat_digits (DatabaseProp ''plant'') sensors_state)))) = []"
  using tables_fetch_failure_keeps_selection
    [of "''plant''" sensors_state parseFloat_digits "[''lines'']"]
  by (simp add: sensors_state_def Let_def)

theorem failed_tables_fetch_selection_survives:
  "selectedTable (fst (step parseFloat_digits (TablesSettled Rejected)
     (fst (step parseFloat_digits (DatabaseProp ''plant'') sensors_state)))) = ''readings''"
  by (simp add: step_simps sensors_state_def)

text \<open>
  Claim C5. A table fetch that fails leaves \<^verbatim>\<open>tables\<close> as it was and shows
  \<^verbatim>\<open>Failed to fetch tables\<close>; the continuation of \<^verbatim>\<open>fetchTables\<close> ends normally
  whatever the outcome of the request, so no exception leaves the component, and
  nothing further is triggered.
\<close>

theorem failed_tables_fetch_is_contained:
  "fetchTables_resume Rejected s = Inr (s\<lparr>error := ''Failed to fetch tables''\<rparr>)
   \<and> \<not> isl (fetchTables_resume p s)
   \<and> tables (fst (step pf (TablesSettled Rejected) s)) = tables s
   \<and> error (fst (step pf (TablesSettled Rejected) s)) = ''Failed to fetch tables''
   \<and> snd (step pf (TablesSettled Rejected) s) = []"
  by (cases p) (simp_all add: step_simps fetchTables_resume_def try_catch_def await_def)

text \<open>
  Claim C10, as the code has it. A successful table fetch changes the table list
  and the table selection and nothing else: the column list and the whole draft
  are as before, and nothing is requested. The column list changes only when a
  column fetch resolves; such a fetch is requested only by a table selection or
  a database change that leaves a non-empty table selected.
\<close>

theorem tables_fetch_frame:
  "step pf (TablesSettled (Resolved tbls)) s = (s\<lparr>tables := tbls, selectedTable := []\<rparr>, [])
   \<and> columns (fst (step pf (TablesSettled (Resolved tbls)) s)) = columns s
   \<and> formData (fst (step pf (TablesSettled (Resolved tbls)) s)) = formData s
   \<and> ((\<forall>cols. ev \<noteq> ColumnsSettled (Resolved cols)) \<longrightarrow>
        columns (fst (step pf ev s)) = columns s)
   \<and> (\<forall>r \<in> set (requests (snd (step pf ev s))).
        prefix ''/fault_management/columns_from_db'' (req_url r) \<longrightarrow>
          selectedTable (fst (step pf ev s)) \<noteq> []
          \<and> ((\<exists>v. ev = ChangeTable v) \<or> (\<exists>db. ev = DatabaseProp db)))"
proof -
  have kept: "(\<forall>cols. ev \<noteq> ColumnsSettled (Resolved cols)) \<longrightarrow>
        columns (fst (step pf ev s)) = columns s"
  proof (cases ev)
    case (TablesSettled p) then show ?thesis by (cases p) (simp_all add: step_simps)
  next
    case (ColumnsSettled p) then show ?thesis by (cases p) (simp_all add: step_simps)
  next
    case (AddAlertSettled p) then show ?thesis by (cases p) (simp_all add: step_simps)
  qed (simp_all add: step_simps)
  have origin: "\<forall>r \<in> set (requests (snd (step pf ev s))).
        prefix ''/fault_management/columns_from_db'' (req_url r) \<longrightarrow>
          selectedTable (fst (step pf ev s)) \<noteq> []
          \<and> ((\<exists>v. ev = ChangeTable v) \<or> (\<exists>db. ev = DatabaseProp db))"
  proof (cases ev)
    case (TablesSettled p) then show ?thesis by (cases p) (simp_all add: step_simps)
  next
    case (ColumnsSettled p) then show ?thesis by (cases p) (simp_all add: step_simps)
  next
    case (AddAlertSettled p) then show ?thesis by (cases p) (simp_all add: step_simps)
  qed (simp_all add: step_simps url_defs)
  from kept origin show ?thesis by (simp add: step_simps)
qed

theorem tables_fetch_frame_witness:
  "(\<forall>cols. DatabaseProp ''plant'' \<noteq> ColumnsSettled (Resolved cols))
   \<and> columns (fst (step parseFloat_digits (DatabaseProp ''plant'') sensors_state)) = [''temp'']
   \<and> apiClient_get (columns_url ''plant'' ''readings'')
       \<in> set (requests (snd (step parseFloat_digits (DatabaseProp ''plant'') sensors_state)))
   \<and> prefix ''/fault_management/columns_from_db''
       (req_url (apiClient_get (columns_url ''plant'' ''readings'') ::
          nat option alert_draft request))
   \<and> selectedTable (fst (step parseFloat_digits (DatabaseProp ''plant'') sensors_state)) \<noteq> []"
proof -
  have sent: "apiClient_get (columns_url ''plant'' ''readings'')
       \<in> set (requests (snd (step parseFloat_digits (DatabaseProp ''plant'') sensors_state)))"
    by (simp add: step_simps sensors_state_def)
  have path: "prefix ''/fault_management/columns_from_db''
       (req_url (apiClient_get (columns_url ''plant'' ''readings'') ::
          nat option alert_draft request))"
    by (simp add: url_defs)
  have cols: "columns sensors_state = [''temp'']"
    by (simp add: sensors_state_def)
  from tables_fetch_frame [of parseFloat_digits _ sensors_state "DatabaseProp ''plant''"]
    sent path cols
  show ?thesis by auto
qed

text \<open>
  The claim's last clause fails: the database change itself requests the columns
  of the table still selected, and when that fetch resolves the column list is
  replaced though no table has been selected since.
\<close>

theorem columns_replaced_without_selection:
  "columns sensors_state = [''temp'']
   \<and> Request (apiClient_get (columns_url ''plant'' ''readings''))
       \<in> set (snd (step parseFloat_digits (DatabaseProp ''plant'') sensors_state))
   \<and> columns (run parseFloat_digits sensors_state
       [DatabaseProp ''plant'', TablesSettled (Resolved [''lines'']),
        ColumnsSettled (Resolved [''speed''])]) = [''speed'']"
  by (simp add: step_simps sensors_state_def)


section \<open>The column fetch\<close>

text \<open>
  Claim C4, as the code has it. Selecting the empty table requests nothing and
  changes nothing but the selection. Changing the selection to a non-empty table
  requests exactly the columns of (selected database, that table). When a column
  fetch fails, the error message is \<^verbatim>\<open>Failed to fetch columns\<close> and the draft's
  \<^verbatim>\<open>field_name\<close> is what it was; when it succeeds, \<^verbatim>\<open>field_name\<close> is cleared.
\<close>

theorem table_change_column_fetch:
  "step pf (ChangeTable []) s = (s\<lparr>selectedTable := []\<rparr>, [])
   \<and> (v \<noteq> [] \<and> v \<noteq> selectedTable s \<longrightarrow>
        step pf (ChangeTable v) s =
          (s\<lparr>selectedTable := v\<rparr>,
           [Request (apiClient_get (columns_url (selectedDatabase s) v))]))
   \<and> (let ko = fst (step pf (ColumnsSettled Rejected) s')
       in error ko = ''Failed to fetch columns''
          \<and> field_name (formData ko) = field_name (formData s'))
   \<and> field_name (formData (fst (step pf (ColumnsSettled (Resolved cols)) s'))) = JString []
   \<and> columns (fst (step pf (ColumnsSettled (Resolved cols)) s')) = cols"
  by (simp add: step_simps)

theorem table_change_column_fetch_witness:
  "''events'' \<noteq> [] \<and> ''events'' \<noteq> selectedTable sensors_state
   \<and> step parseFloat_digits (ChangeTable ''events'') sensors_state =
       (sensors_state\<lparr>selectedTable := ''events''\<rparr>,
        [Request (apiClient_get (columns_url ''sensors'' ''events''))])"
  using table_change_column_fetch [of parseFloat_digits sensors_state "''events''"]
  by (simp add: sensors_state_def)

theorem failed_columns_fetch_field_name_survives:
  "field_name (formData (fst (step parseFloat_digits (ColumnsSettled Rejected)
     (fst (step parseFloat_digits (ChangeTable ''events'') sensors_state)))))
   = JString ''temp''"
  by (simp add: step_simps sensors_state_def)

section \<open>Requests\<close>

text \<open>
  Claim C6, as the code has it. Mounting with a non-empty database requests
  exactly its tables. Changing the database to a non-empty value requests its
  tables, once, and, when a table is selected at that moment, also the columns of
  (new database, that table), once. Changing the selection to a non-empty table
  requests exactly the columns of (selected database, that table). Selecting the
  empty table requests nothing. The two GET requests are the wrapper's, with the
  database, and the table, written into the query string.
\<close>

theorem selection_events_requests:
  "(db \<noteq> [] \<longrightarrow>
      requests (snd (mount db :: 'n state \<times> 'n effect list)) = [apiClient_get (tables_url db)])
   \<and> (db \<noteq> [] \<and> db \<noteq> selectedDatabase s \<longrightarrow>
        requests (snd (step pf (DatabaseProp db) (s :: 'n state))) =
          apiClient_get (tables_url db)
          # (if selectedTable s = [] then []
             else [apiClient_get (columns_url db (selectedTable s))]))
   \<and> (v \<noteq> [] \<and> v \<noteq> selectedTable s \<longrightarrow>
        requests (snd (step pf (ChangeTable v) s)) =
          [apiClient_get (columns_url (selectedDatabase s) v)])
   \<and> requests (snd (step pf (ChangeTable []) s)) = []
   \<and> (apiClient_get (tables_url db) :: 'n alert_draft request) =
       \<lparr>req_method = GET, req_baseURL = ''http://localhost:5000'',
        req_headers = [(''Content-Type'', ''application/json'')],
        req_url = ''/fault_management/tables_from_db?database='' @ db, req_data = None\<rparr>
   \<and> (apiClient_get (columns_url db v) :: 'n alert_draft request) =
       \<lparr>req_method = GET, req_baseURL = ''http://localhost:5000'',
        req_headers = [(''Content-Type'', ''application/json'')],
        req_url = ''/fault_management/columns_from_db?database='' @ db @ ''&table='' @ v,
        req_data = None\<rparr>"
  by (simp add: step_simps mount_eq url_defs)

theorem selection_events_requests_witness:
  "''plant'' \<noteq> [] \<and> ''plant'' \<noteq> selectedDatabase sensors_state
   \<and> ''events'' \<noteq> [] \<and> ''events'' \<noteq> selectedTable sensors_state
   \<and> requests (snd (mount ''plant'' :: nat option state \<times> nat option effect list))
       = [apiClient_get (tables_url ''plant'')]
   \<and> length (requests (snd (step parseFloat_digits (DatabaseProp ''plant'') sensors_state)))
       = 2
   \<and> requests (snd (step parseFloat_digits (ChangeTable ''events'') sensors_state))
       = [apiClient_get (columns_url ''sensors'' ''events'')]"
  using selection_events_requests [of "''plant''" sensors_state parseFloat_digits "''events''"]
  by (simp add: sensors_state_def)

text \<open>
  With a table selected, a database change sends two requests, not the one the
  claim lists for it.
\<close>

theorem database_change_issues_two_requests:
  "requests (snd (step parseFloat_digits (DatabaseProp ''plant'') sensors_state)) =
     [apiClient_get (tables_url ''plant''), apiClient_get (columns_url ''plant'' ''readings'')]"
  by (simp add: step_simps sensors_state_def)

text \<open>
  Claim C7. The client wrapper has base URL \<^verbatim>\<open>http://localhost:5000\<close> and the
  header \<^verbatim>\<open>Content-Type: application/json\<close>. Every request the component sends,
  at mount or at any event in any state, carries the wrapper's base URL and
  headers, and is a GET to a path that starts with
  \<^verbatim>\<open>/fault_management/tables_from_db\<close> or \<^verbatim>\<open>/fault_management/columns_from_db\<close>, or
  a POST to one that starts with \<^verbatim>\<open>/fault_management/add_alert\<close>.
\<close>

theorem requests_go_through_apiClient:
  "apiClient = \<lparr>baseURL = ''http://localhost:5000'',
                headers = [(''Content-Type'', ''application/json'')]\<rparr>
   \<and> (\<forall>r \<in> set (requests (snd (step pf ev s)))
             \<union> set (requests (snd (mount db :: 'n state \<times> 'n effect list))).
         req_baseURL r = baseURL apiClient \<and> req_headers r = headers apiClient
         \<and> (req_method r = GET \<and> prefix ''/fault_management/tables_from_db'' (req_url r)
            \<or> req_method r = GET \<and> prefix ''/fault_management/columns_from_db'' (req_url r)
            \<or> req_method r = POST \<and> prefix ''/fault_management/add_alert'' (req_url r)))"
proof -
  have cfg: "apiClient = \<lparr>baseURL = ''http://localhost:5000'',
                headers = [(''Content-Type'', ''application/json'')]\<rparr>"
    by (simp add: apiClient_def)
  have at_mount: "requests (snd (mount db :: 'n state \<times> 'n effect list))
    = (if db = [] then [] else [apiClient_get (tables_url db)])"
    by (simp add: mount_eq)
  have "\<forall>r \<in> set (requests (snd (step pf ev s))).
         req_baseURL r = baseURL apiClient \<and> req_headers r = headers apiClient
         \<and> (req_method r = GET \<and> prefix ''/fault_management/tables_from_db'' (req_url r)
            \<or> req_method r = GET \<and> prefix ''/fault_management/columns_from_db'' (req_url r)
            \<or> req_method r = POST \<and> prefix ''/fault_management/add_alert'' (req_url r))"
  proof (cases ev)
    case (TablesSettled p) then show ?thesis by (cases p) (simp_all add: step_simps)
  next
    case (ColumnsSettled p) then show ?thesis by (cases p) (simp_all add: step_simps)
  next
    case (AddAlertSettled p) then show ?thesis by (cases p) (simp_all add: step_simps)
  qed (simp_all add: step_simps apiClient_get_def apiClient_post_def tables_url_def
        columns_url_def add_alert_url_def)
  with cfg at_mount show ?thesis
    by (auto simp: apiClient_get_def tables_url_def)
qed

theorem requests_go_through_apiClient_witness:
  "apiClient_post (add_alert_url ''sensors'') (formData sensors_state)
     \<in> set (requests (snd (step parseFloat_digits SubmitForm sensors_state)))
   \<and> req_baseURL (apiClient_post (add_alert_url ''sensors'') (formData sensors_state))
       = baseURL apiClient
   \<and> req_headers (apiClient_post (add_alert_url ''sensors'') (formData sensors_state))
       = headers apiClient"
proof -
  have sent: "apiClient_post (add_alert_url ''sensors'') (formData sensors_state)
     \<in> set (requests (snd (step parseFloat_digits SubmitForm sensors_state)))"
    by (simp add: step_simps sensors_state_def)
  then have "apiClient_post (add_alert_url ''sensors'') (formData sensors_state)
     \<in> set (requests (snd (step parseFloat_digits SubmitForm sensors_state)))
       \<union> set (requests (snd (mount [] :: nat option state \<times> nat option effect list)))"
    by (rule UnI1)
  with requests_go_through_apiClient [of parseFloat_digits SubmitForm sensors_state "[]"] sent
  show ?thesis by blast
qed

section \<open>The draft\<close>

lemma step_draft_inv:
  "draft_inv (formData s) \<Longrightarrow> draft_inv (formData (fst (step pf ev s)))"
proof (cases ev)
  case (TablesSettled p) then show "draft_inv (formData s) \<Longrightarrow> ?thesis"
    by (cases p) (simp_all add: step_simps)
next
  case (ColumnsSettled p) then show "draft_inv (formData s) \<Longrightarrow> ?thesis"
    by (cases p) (simp_all add: step_simps draft_inv_def is_string_def)
next
  case (AddAlertSettled p) then show "draft_inv (formData s) \<Longrightarrow> ?thesis"
    by (cases p) (simp_all add: step_simps draft_inv_def is_string_def emptyDraft_def)
qed (simp_all add: step_simps draft_inv_def is_string_def is_number_def)

lemma run_draft_inv:
  "draft_inv (formData s) \<Longrightarrow> draft_inv (formData (run pf s evs))"
  by (induction evs arbitrary: s) (simp_all add: step_draft_inv)

text \<open>
  Claim C8, as the code has it. In every state the component reaches from its
  mount, \<^verbatim>\<open>alert_title\<close>, \<^verbatim>\<open>alert_message\<close> and \<^verbatim>\<open>field_name\<close> are strings, and
  \<^verbatim>\<open>lower_bound\<close> and \<^verbatim>\<open>higher_bound\<close> are each the empty string or a number. The
  draft is empty at mount, a change of a control sets its one field (a string
  for the three text fields, the parsed number for a bound), and a successful
  submission makes the draft empty again.
\<close>

theorem draft_invariant:
  "draft_inv (formData (run pf (fst (mount db :: 'n state \<times> 'n effect list)) evs))
   \<and> formData (fst (mount db :: 'n state \<times> 'n effect list)) = emptyDraft
   \<and> formData (fst (step pf (ChangeTitle v) (s :: 'n state)))
       = (formData s)\<lparr>alert_title := JString v\<rparr>
   \<and> formData (fst (step pf (ChangeMessage v) s)) = (formData s)\<lparr>alert_message := JString v\<rparr>
   \<and> formData (fst (step pf (ChangeField v) s)) = (formData s)\<lparr>field_name := JString v\<rparr>
   \<and> formData (fst (step pf (ChangeLower v) s)) = (formData s)\<lparr>lower_bound := JNumber (pf v)\<rparr>
   \<and> formData (fst (step pf (ChangeHigher v) s))
       = (formData s)\<lparr>higher_bound := JNumber (pf v)\<rparr>
   \<and> formData (fst (step pf (AddAlertSettled (Resolved ())) s)) = emptyDraft"
proof -
  have "draft_inv (formData (fst (mount db :: 'n state \<times> 'n effect list)))"
    by (simp add: mount_eq initial_def emptyDraft_def draft_inv_def is_string_def)
  then have "draft_inv (formData (run pf (fst (mount db :: 'n state \<times> 'n effect list)) evs))"
    by (rule run_draft_inv)
  then show ?thesis
    by (simp add: step_simps mount_eq initial_def)
qed

text \<open>
  The bounds are not numbers at mount, nor after the reset that follows a
  successful submission: they are the empty string.
\<close>

theorem bounds_start_as_strings:
  "\<not> is_number (lower_bound (formData
        (fst (mount ''sensors'' :: nat option state \<times> nat option effect list))))
   \<and> \<not> is_number (higher_bound (formData
        (fst (step parseFloat_digits (AddAlertSettled (Resolved ())) sensors_state))))"
  by (simp add: step_simps mount_eq initial_def emptyDraft_def is_number_def)

end
